theory Spec2Isabelle
  imports Complex_Main
begin

section \<open>Python values\<close>

text \<open>
  The financial decision model of \<^verbatim>\<open>backend/financial_model.py\<close> computes on Python
  \<^verbatim>\<open>float\<close>s and \<^verbatim>\<open>int\<close>s. Integers are modelled as \<^typ>\<open>int\<close>. Floats are modelled as
  \<^typ>\<open>real\<close> with exact arithmetic: the binary rounding of each operation (relative error
  below \<open>2\<^sup>-\<^sup>5\<^sup>3\<close>), overflow to infinity and NaN are not part of the model. Every concrete
  input evaluated below is chosen so that a value that gets rounded to a number of decimals
  is further from the nearest rounding boundary than that error, unless said otherwise.

  A Python \<^verbatim>\<open>str\<close> is a sequence of Unicode code points: the goal text is modelled as a
  list of naturals, and \<open>ascii\<close> turns an ASCII literal into such a list. The keys of the
  risk tiers, which are ASCII and only compared for equality, are modelled as \<^typ>\<open>string\<close>.
\<close>

type_synonym pystr = "nat list"

definition ascii :: "string \<Rightarrow> pystr" where
  "ascii s = map of_char s"

datatype py_error = KeyError | IndexError | ZeroDivisionError | ValueError | TypeError

text \<open>The operator \<^verbatim>\<open>sub in s\<close> on strings: \<open>sub\<close> occurs in \<open>s\<close> as a contiguous run.\<close>

fun startswith :: "'a list \<Rightarrow> 'a list \<Rightarrow> bool" where
  "startswith s [] = True"
| "startswith [] (c # sub) = False"
| "startswith (d # s) (c # sub) = (d = c \<and> startswith s sub)"

fun py_in :: "'a list \<Rightarrow> 'a list \<Rightarrow> bool" where
  "py_in sub [] = (sub = [])"
| "py_in sub (d # s) = (startswith (d # s) sub \<or> py_in sub s)"

text \<open>
  The built-in \<^verbatim>\<open>round(x, n)\<close>: the nearest multiple of \<open>10\<^sup>-\<^sup>n\<close>, a tie going to the
  even one.
\<close>

definition round_half_even :: "real \<Rightarrow> int" where
  "round_half_even x =
     (let f = \<lfloor>x\<rfloor>; d = x - of_int f
      in if d < 1 / 2 then f
         else if 1 / 2 < d then f + 1
         else if even f then f else f + 1)"

definition py_round :: "real \<Rightarrow> nat \<Rightarrow> real" where
  "py_round x n = of_int (round_half_even (x * 10 ^ n)) / 10 ^ n"

section \<open>Target amount of a goal\<close>

text \<open>
  The keyword literals of \<^verbatim>\<open>calculate_target_amount\<close>, as code points:
  U+4E70 U+623F (buy a house), U+623F (house), U+4E70 U+8F66 (buy a car), U+8F66 (car),
  U+6559 U+80B2 (education), U+81EA U+7531 (freedom), U+9000 U+4F11 (retirement).
\<close>

definition kw_buy_house :: pystr where "kw_buy_house = [0x4E70, 0x623F]"
definition kw_house :: pystr where "kw_house = [0x623F]"
definition kw_buy_car :: pystr where "kw_buy_car = [0x4E70, 0x8F66]"
definition kw_car :: pystr where "kw_car = [0x8F66]"
definition kw_education :: pystr where "kw_education = [0x6559, 0x80B2]"
definition kw_freedom :: pystr where "kw_freedom = [0x81EA, 0x7531]"
definition kw_retirement :: pystr where "kw_retirement = [0x9000, 0x4F11]"

definition calculate_target_amount :: "pystr \<Rightarrow> int" where
  "calculate_target_amount goal =
     (if py_in kw_buy_house goal \<or> py_in kw_house goal then 1000000
      else if py_in kw_buy_car goal \<or> py_in kw_car goal then 300000
      else if py_in kw_education goal then 500000
      else if py_in kw_freedom goal \<or> py_in kw_retirement goal then 2000000
      else 500000)"

section \<open>Risk profiles\<close>

record allocation =
  stocks :: real
  bonds :: real
  cash :: real

record profile =
  expected_return :: real
  volatility :: real
  max_drawdown :: real
  asset_allocation :: allocation

text \<open>The dictionary \<^verbatim>\<open>self.risk_profiles\<close>; a key that is absent raises \<^verbatim>\<open>KeyError\<close>.\<close>

definition risk_profiles :: "string \<rightharpoonup> profile" where
  "risk_profiles =
     [''low'' \<mapsto>
        \<lparr>expected_return = 5 / 100, volatility = 3 / 100, max_drawdown = 5 / 100,
         asset_allocation = \<lparr>stocks = 20 / 100, bonds = 70 / 100, cash = 10 / 100\<rparr>\<rparr>,
      ''medium'' \<mapsto>
        \<lparr>expected_return = 7 / 100, volatility = 8 / 100, max_drawdown = 15 / 100,
         asset_allocation = \<lparr>stocks = 40 / 100, bonds = 50 / 100, cash = 10 / 100\<rparr>\<rparr>,
      ''high'' \<mapsto>
        \<lparr>expected_return = 9 / 100, volatility = 15 / 100, max_drawdown = 30 / 100,
         asset_allocation = \<lparr>stocks = 60 / 100, bonds = 30 / 100, cash = 10 / 100\<rparr>\<rparr>]"

section \<open>Performance metrics\<close>


definition calculate_var :: "string \<Rightarrow> real \<Rightarrow> py_error + real" where
  "calculate_var risk_level confidence_level =
     (case risk_profiles risk_level of
        None \<Rightarrow> Inl KeyError
      | Some p \<Rightarrow>
          let z_score = (if confidence_level = 95 / 100 then 1645 / 1000
                         else if confidence_level = 99 / 100 then 2326 / 1000
                         else 128 / 100);
              var = - expected_return p + z_score * volatility p
          in Inr (py_round (\<bar>var\<bar> * 100) 2))"

definition calculate_cvar :: "string \<Rightarrow> real \<Rightarrow> py_error + real" where
  "calculate_cvar risk_level confidence_level =
     (case calculate_var risk_level confidence_level of
        Inl e \<Rightarrow> Inl e
      | Inr v \<Rightarrow>
          let var = v / 100;
              cvar = var * (13 / 10)
          in Inr (py_round (cvar * 100) 2))"

section \<open>Asset allocation\<close>

text \<open>
  The adjusted weights \<^verbatim>\<open>stocks_adj\<close>, \<^verbatim>\<open>bonds_adj\<close> and \<^verbatim>\<open>cash_adj\<close> of
  \<^verbatim>\<open>optimize_asset_allocation\<close>, before they are normalised.
\<close>

definition adjusted_allocation :: "allocation \<Rightarrow> real \<Rightarrow> real \<Rightarrow> int \<Rightarrow> real \<times> real \<times> real" where
  "adjusted_allocation base_allocation current_asset target_amount time_horizon =
     (let time_factor = min 1 (of_int time_horizon / 120);
          asset_ratio = (if target_amount > 0 then min 1 (current_asset / target_amount) else 0);
          conservative_factor = asset_ratio * (3 / 10);
          stocks_adj = stocks base_allocation * (1 + time_factor * (2 / 10)) * (1 - conservative_factor);
          bonds_adj = bonds base_allocation * (1 - time_factor * (1 / 10)) * (1 + conservative_factor);
          cash_adj = cash base_allocation
      in (stocks_adj, bonds_adj, cash_adj))"

text \<open>The normalisation divides by the total; a total of zero raises \<^verbatim>\<open>ZeroDivisionError\<close>.\<close>

definition optimize_asset_allocation :: "string \<Rightarrow> real \<Rightarrow> real \<Rightarrow> int \<Rightarrow> py_error + allocation" where
  "optimize_asset_allocation risk_level current_asset target_amount time_horizon =
     (case risk_profiles risk_level of
        None \<Rightarrow> Inl KeyError
      | Some p \<Rightarrow>
          (case adjusted_allocation (asset_allocation p) current_asset target_amount time_horizon of
             (stocks_adj, bonds_adj, cash_adj) \<Rightarrow>
               let total = stocks_adj + bonds_adj + cash_adj
               in if total = 0 then Inl ZeroDivisionError
                  else Inr \<lparr>stocks = py_round (stocks_adj / total) 3,
                            bonds = py_round (bonds_adj / total) 3,
                            cash = py_round (cash_adj / total) 3\<rparr>))"

section \<open>Monte Carlo projection\<close>

text \<open>
  \<^verbatim>\<open>random.gauss\<close> is the library's generator: it is a parameter \<open>gauss\<close> of the model, a
  function from a generator state, a mean and a deviation to a draw and the next state.
\<close>







section \<open>Savings plan\<close>

text \<open>
  The search \<^verbatim>\<open>while accumulated < target_amount and months < 600\<close>; it returns the final
  \<^verbatim>\<open>accumulated\<close> and \<^verbatim>\<open>months\<close>.
\<close>

function months_search :: "real \<Rightarrow> real \<Rightarrow> real \<Rightarrow> real \<Rightarrow> int \<Rightarrow> real \<times> int" where
  "months_search target_amount monthly_return save accumulated months =
     (if accumulated < target_amount \<and> months < 600
      then months_search target_amount monthly_return save
             (accumulated * (1 + monthly_return) + save) (months + 1)
      else (accumulated, months))"
  by pat_completeness auto
termination
  by (relation "measure (\<lambda>(t, r, s, a, m). nat (600 - m))") auto

declare months_search.simps [simp del]

text \<open>
  The first half of \<^verbatim>\<open>calculate_optimal_savings_rate\<close>: the horizon \<^verbatim>\<open>target_months\<close> and the
  monthly saving \<^verbatim>\<open>monthly_save\<close>, from the optional horizon of the caller.
\<close>

definition plan_horizon :: "real \<Rightarrow> real \<Rightarrow> real \<Rightarrow> real \<Rightarrow> int option \<Rightarrow> int \<times> real" where
  "plan_horizon current_asset monthly_income target_amount monthly_return horizon =
     (case horizon of
        None \<Rightarrow>
          let gap = target_amount - current_asset
          in if gap \<le> 0 then (0, 0)
             else let save = monthly_income * (3 / 10);
                      months = snd (months_search target_amount monthly_return save current_asset 0)
                  in (if months < 600 then months else 600, save)
      | Some n \<Rightarrow>
          if n = 0 then (n, 0)
          else let future_value_pv = current_asset * (1 + monthly_return) powi n;
                   annuity_factor = (if monthly_return > 0
                                     then ((1 + monthly_return) powi n - 1) / monthly_return
                                     else of_int n);
                   save = (if annuity_factor > 0
                           then (target_amount - future_value_pv) / annuity_factor
                           else (target_amount - current_asset) / of_int n)
               in (n, max 0 save))"

record savings_plan =
  monthly_save :: real
  savings_rate :: real
  target_months :: int
  expected_final_amount :: real

definition calculate_optimal_savings_rate ::
  "real \<Rightarrow> real \<Rightarrow> real \<Rightarrow> string \<Rightarrow> int option \<Rightarrow> py_error + savings_plan" where
  "calculate_optimal_savings_rate current_asset monthly_income target_amount risk_level horizon =
     (case risk_profiles risk_level of
        None \<Rightarrow> Inl KeyError
      | Some p \<Rightarrow>
          let annual_return = expected_return p;
              monthly_return = annual_return / 12
          in case plan_horizon current_asset monthly_income target_amount monthly_return horizon of
               (n, save) \<Rightarrow>
                 (case (if n = 0 \<or> monthly_income = 0 then (0, 0)
                        else let rate = min (6 / 10) (max (2 / 10) (save / monthly_income))
                             in (rate, monthly_income * rate)) of
                    (rate, save') \<Rightarrow>
                      let annuity_factor = (if monthly_return > 0
                                            then ((1 + monthly_return) powi n - 1) / monthly_return
                                            else of_int n);
                          final_amount = (if n = 0 then current_asset
                                          else current_asset * (1 + monthly_return) powi n
                                               + save' * annuity_factor)
                      in Inr \<lparr>monthly_save = py_round save' 2,
                              savings_rate = py_round rate 2,
                              target_months = n,
                              expected_final_amount = py_round final_amount 2\<rparr>))"

section \<open>Risk tolerance\<close>

text \<open>
  The factors of \<^verbatim>\<open>calculate_risk_tolerance\<close>. \<open>asset_coverage_factor\<close> is the variable
  \<^verbatim>\<open>asset_coverage\<close> and \<open>time_pressure_factor\<close> the variable \<^verbatim>\<open>time_pressure\<close>, each as a
  function of the values it is computed from.
\<close>

definition asset_coverage_factor :: "real \<Rightarrow> int \<Rightarrow> real" where
  "asset_coverage_factor current_asset target_amount =
     max 0 (if target_amount > 0 then min 2 (current_asset / of_int target_amount) else 0)"

definition time_pressure_factor :: "real \<Rightarrow> real \<Rightarrow> real" where
  "time_pressure_factor gap monthly_income =
     (let monthly_save_capacity = monthly_income * (3 / 10)
      in if gap \<le> 0 then 0
         else let months_to_target = (if monthly_save_capacity > 0
                                      then gap / monthly_save_capacity else 999)
              in if months_to_target \<le> 0 then 1
                 else if months_to_target < 12 then 1
                 else if months_to_target < 60 then min 1 (60 / months_to_target)
                 else min 1 (100 / months_to_target))"

text \<open>
  \<^verbatim>\<open>_calculate_risk_score_traditional\<close>. A negative float to a fractional power is a complex
  number in Python, and comparing it in \<^verbatim>\<open>min\<close> raises \<^verbatim>\<open>TypeError\<close>; of the four factors only
  the income stability can be negative.
\<close>

definition calculate_risk_score_traditional :: "real \<Rightarrow> real \<Rightarrow> real \<Rightarrow> real \<Rightarrow> real \<Rightarrow> py_error + real" where
  "calculate_risk_score_traditional coverage pressure age_f stability gap =
     (if stability < 0 then Inl TypeError
      else
        let risk_score =
              (if gap \<le> 0
               then min (4 / 10)
                      (coverage powr (1 / 10) * age_f powr (2 / 10) * stability powr (2 / 10)
                       * (5 / 10) powr (5 / 10))
               else let score = min 1 coverage powr (25 / 100) * pressure powr (25 / 100)
                                * age_f powr (25 / 100) * stability powr (25 / 100)
                    in if pressure > 7 / 10 \<and> coverage < 3 / 10
                       then min 1 (score * (12 / 10)) else score)
        in Inr (max 0 (min 1 risk_score)))"

record risk_factors =
  asset_coverage :: real
  time_pressure :: real
  age_factor :: real
  income_stability :: real

record risk_assessment =
  risk_level :: string
  risk_score :: real
  ml_enhanced :: bool
  factors :: risk_factors

text \<open>
  The learned scorer (scaler and random forest of scikit-learn) is the parameter \<open>ml_model\<close>:
  \<open>None\<close> when the model is absent, otherwise a function from the feature vector to its
  prediction, or to \<open>None\<close> when predicting raises. \<^verbatim>\<open>math.log\<close> raises \<^verbatim>\<open>ValueError\<close> on an
  argument that is not positive.
\<close>

definition calculate_risk_tolerance ::
  "(real list \<Rightarrow> real option) option \<Rightarrow> real \<Rightarrow> real \<Rightarrow> pystr \<Rightarrow> int \<Rightarrow> py_error + risk_assessment" where
  "calculate_risk_tolerance ml_model current_asset monthly_income goal age =
     (let target_amount = calculate_target_amount goal;
          gap = of_int target_amount - current_asset;
          coverage = asset_coverage_factor current_asset target_amount;
          pressure = time_pressure_factor gap monthly_income;
          age_f = max (5 / 10) (1 - (of_int age - 25) / 50)
      in if 1 + monthly_income / 5000 \<le> 0 then Inl ValueError
         else
           let stability = min 1 (ln (1 + monthly_income / 5000) / ln 5);
               traditional = map_sum id (Pair False)
                  (calculate_risk_score_traditional coverage pressure age_f stability gap);
               scored = (case ml_model of
                           None \<Rightarrow> traditional
                         | Some predict \<Rightarrow>
                            (case predict [min 1 coverage, pressure, age_f, stability] of
                               None \<Rightarrow> traditional
                             | Some y \<Rightarrow> Inr (True, max 0 (min 1 y))))
           in case scored of
                Inl e \<Rightarrow> Inl e
              | Inr (enhanced, score) \<Rightarrow>
                  Inr \<lparr>risk_level = (if score \<ge> 7 / 10 then ''high''
                                     else if score \<ge> 4 / 10 then ''medium'' else ''low''),
                       risk_score = py_round score 2,
                       ml_enhanced = enhanced,
                       factors = \<lparr>asset_coverage = py_round (min 1 coverage) 2,
                                  time_pressure = py_round pressure 2,
                                  age_factor = py_round age_f 2,
                                  income_stability = py_round stability 2\<rparr>\<rparr>)"


section \<open>Rounding\<close>

lemma round_half_even_error: "\<bar>of_int (round_half_even x) - x\<bar> \<le> 1 / 2"
proof -
  have "of_int \<lfloor>x\<rfloor> \<le> x" "x < of_int \<lfloor>x\<rfloor> + 1" by linarith+
  then show ?thesis
    by (auto simp: round_half_even_def Let_def)
qed

lemma round_half_even_of_int [simp]: "round_half_even (of_int k) = k"
  by (simp add: round_half_even_def)

lemma round_half_even_ge: "of_int k \<le> x \<Longrightarrow> k \<le> round_half_even x"
proof -
  assume "of_int k \<le> x"
  then have "k \<le> \<lfloor>x\<rfloor>" by (simp add: le_floor_iff)
  then show ?thesis by (auto simp: round_half_even_def Let_def)
qed

lemma round_half_even_le: "x \<le> of_int k \<Longrightarrow> round_half_even x \<le> k"
proof (cases "x = of_int k")
  case True
  then show ?thesis by simp
next
  case False
  assume "x \<le> of_int k"
  with False have "x < of_int k" by simp
  then have "\<lfloor>x\<rfloor> < k" by (simp add: floor_less_iff)
  then show ?thesis by (auto simp: round_half_even_def Let_def)
qed

text \<open>Rounding to \<open>n\<close> decimals moves a value by at most half a unit of the last decimal.\<close>

lemma py_round_error: "\<bar>py_round x n - x\<bar> \<le> 1 / (2 * 10 ^ n)"
proof -
  have "\<bar>py_round x n - x\<bar> = \<bar>of_int (round_half_even (x * 10 ^ n)) - x * 10 ^ n\<bar> / 10 ^ n"
    by (simp add: py_round_def field_simps abs_divide flip: abs_mult)
  also have "\<dots> \<le> (1 / 2) / 10 ^ n"
    by (intro divide_right_mono round_half_even_error) simp
  finally show ?thesis by simp
qed

text \<open>Rounding never crosses a value that has \<open>n\<close> decimals itself.\<close>

lemma py_round_ge: "x * 10 ^ n = of_int k \<Longrightarrow> x \<le> y \<Longrightarrow> x \<le> py_round y n"
proof -
  assume k: "x * 10 ^ n = of_int k" and le: "x \<le> y"
  have "of_int k \<le> y * 10 ^ n" using le k [symmetric] by (simp add: mult_right_mono)
  then have "k \<le> round_half_even (y * 10 ^ n)" by (rule round_half_even_ge)
  then have "(of_int k :: real) \<le> of_int (round_half_even (y * 10 ^ n))" by simp
  then have "x * 10 ^ n \<le> of_int (round_half_even (y * 10 ^ n))" using k by simp
  then show ?thesis by (simp add: py_round_def field_simps)
qed

lemma py_round_le: "x * 10 ^ n = of_int k \<Longrightarrow> y \<le> x \<Longrightarrow> py_round y n \<le> x"
proof -
  assume k: "x * 10 ^ n = of_int k" and le: "y \<le> x"
  have "y * 10 ^ n \<le> of_int k" using le k [symmetric] by (simp add: mult_right_mono)
  then have "round_half_even (y * 10 ^ n) \<le> k" by (rule round_half_even_le)
  then have "(of_int (round_half_even (y * 10 ^ n)) :: real) \<le> of_int k" by simp
  then have "of_int (round_half_even (y * 10 ^ n)) \<le> x * 10 ^ n" using k by simp
  then show ?thesis by (simp add: py_round_def field_simps)
qed

lemma py_round_zero [simp]: "py_round 0 n = 0"
  using round_half_even_of_int [of 0] by (simp add: py_round_def)

lemma py_round_5_100: "py_round (5 / 100) 2 = 5 / 100"
  by (simp add: py_round_def round_half_even_def)

lemma py_round_1_10: "py_round (1 / 10) 2 = 1 / 10"
  by (simp add: py_round_def round_half_even_def)

section \<open>Properties of the target amount\<close>

lemmas kw_defs = kw_buy_house_def kw_house_def kw_buy_car_def kw_car_def kw_education_def
  kw_freedom_def kw_retirement_def

text \<open>The two-character keywords end in the one-character ones, so they decide nothing.\<close>

lemma py_in_kw_house: "py_in kw_buy_house g \<Longrightarrow> py_in kw_house g"
  by (induction g) (auto simp: kw_buy_house_def kw_house_def elim!: startswith.elims)

lemma py_in_kw_car: "py_in kw_buy_car g \<Longrightarrow> py_in kw_car g"
  by (induction g) (auto simp: kw_buy_car_def kw_car_def elim!: startswith.elims)

lemma target_english_house: "calculate_target_amount (ascii ''buy a house'') = 500000"
  by (simp add: calculate_target_amount_def ascii_def kw_defs)

lemma target_buy_house: "calculate_target_amount kw_buy_house = 1000000"
  by (simp add: calculate_target_amount_def kw_defs)

text \<open>
  C3, as stated: the bucket amounts descend house, freedom, education, car, generic. The
  code returns 1,000,000 for the house keyword and 2,000,000 for the freedom keyword, and
  300,000 for the car keyword against 500,000 for a text without keyword.
\<close>

theorem bucket_order_counterexample:
  "calculate_target_amount kw_house = 1000000
   \<and> calculate_target_amount kw_freedom = 2000000
   \<and> \<not> calculate_target_amount kw_house > calculate_target_amount kw_freedom
   \<and> calculate_target_amount kw_car = 300000
   \<and> calculate_target_amount (ascii ''travel'') = 500000
   \<and> \<not> calculate_target_amount kw_car > calculate_target_amount (ascii ''travel'')"
  by (simp add: calculate_target_amount_def ascii_def kw_defs)

text \<open>
  C3, amended: a goal of the freedom or retirement bucket gets 2,000,000, a goal of the
  house bucket 1,000,000, a goal of the education bucket 500,000, a goal of the car bucket
  300,000, so the amounts descend freedom, house, education = generic, car; a goal that
  contains no keyword gets the generic 500,000. The buckets are tried in the order house,
  car, education, freedom or retirement.
\<close>

theorem bucket_amounts:
  assumes "py_in kw_house g_house"
    and "py_in kw_car g_car" "\<not> py_in kw_house g_car"
    and "py_in kw_education g_edu" "\<not> py_in kw_house g_edu" "\<not> py_in kw_car g_edu"
    and "py_in kw_freedom g_free \<or> py_in kw_retirement g_free"
      "\<not> py_in kw_house g_free" "\<not> py_in kw_car g_free" "\<not> py_in kw_education g_free"
    and "\<not> py_in kw_house g" "\<not> py_in kw_car g" "\<not> py_in kw_education g"
      "\<not> py_in kw_freedom g" "\<not> py_in kw_retirement g"
  shows "calculate_target_amount g_free = 2000000
    \<and> calculate_target_amount g_house = 1000000
    \<and> calculate_target_amount g_edu = 500000
    \<and> calculate_target_amount g = 500000
    \<and> calculate_target_amount g_car = 300000
    \<and> calculate_target_amount g_free > calculate_target_amount g_house
    \<and> calculate_target_amount g_house > calculate_target_amount g_edu
    \<and> calculate_target_amount g_edu = calculate_target_amount g
    \<and> calculate_target_amount g > calculate_target_amount g_car"
proof -
  have free: "calculate_target_amount g_free = 2000000"
    using assms(7-10) py_in_kw_house [of g_free] py_in_kw_car [of g_free]
    by (auto simp: calculate_target_amount_def)
  have house: "calculate_target_amount g_house = 1000000"
    using assms(1) by (simp add: calculate_target_amount_def)
  have edu: "calculate_target_amount g_edu = 500000"
    using assms(4-6) py_in_kw_house [of g_edu] py_in_kw_car [of g_edu]
    by (auto simp: calculate_target_amount_def)
  have other: "calculate_target_amount g = 500000"
    using assms(11-15) py_in_kw_house [of g] py_in_kw_car [of g]
    by (auto simp: calculate_target_amount_def)
  have car: "calculate_target_amount g_car = 300000"
    using assms(2,3) py_in_kw_house [of g_car]
    by (auto simp: calculate_target_amount_def)
  show ?thesis by (simp add: free house edu other car)
qed

theorem bucket_amounts_witness:
  "py_in kw_house kw_buy_house
   \<and> py_in kw_car kw_buy_car \<and> \<not> py_in kw_house kw_buy_car
   \<and> py_in kw_education kw_education \<and> \<not> py_in kw_house kw_education
   \<and> \<not> py_in kw_car kw_education
   \<and> (py_in kw_freedom kw_retirement \<or> py_in kw_retirement kw_retirement)
   \<and> \<not> py_in kw_house kw_retirement \<and> \<not> py_in kw_car kw_retirement
   \<and> \<not> py_in kw_education kw_retirement
   \<and> \<not> py_in kw_house (ascii ''buy a house'') \<and> \<not> py_in kw_car (ascii ''buy a house'')
   \<and> \<not> py_in kw_education (ascii ''buy a house'')
   \<and> \<not> py_in kw_freedom (ascii ''buy a house'')
   \<and> \<not> py_in kw_retirement (ascii ''buy a house'')
   \<and> calculate_target_amount kw_retirement = 2000000
   \<and> calculate_target_amount kw_buy_house = 1000000
   \<and> calculate_target_amount kw_education = 500000
   \<and> calculate_target_amount (ascii ''buy a house'') = 500000
   \<and> calculate_target_amount kw_buy_car = 300000"
proof -
  have h: "py_in kw_house kw_buy_house"
    "py_in kw_car kw_buy_car" "\<not> py_in kw_house kw_buy_car"
    "py_in kw_education kw_education" "\<not> py_in kw_house kw_education"
    "\<not> py_in kw_car kw_education"
    "py_in kw_freedom kw_retirement \<or> py_in kw_retirement kw_retirement"
    "\<not> py_in kw_house kw_retirement" "\<not> py_in kw_car kw_retirement"
    "\<not> py_in kw_education kw_retirement"
    "\<not> py_in kw_house (ascii ''buy a house'')" "\<not> py_in kw_car (ascii ''buy a house'')"
    "\<not> py_in kw_education (ascii ''buy a house'')"
    "\<not> py_in kw_freedom (ascii ''buy a house'')"
    "\<not> py_in kw_retirement (ascii ''buy a house'')"
    by (simp_all add: kw_defs ascii_def)
  from bucket_amounts [OF h] h show ?thesis by blast
qed

section \<open>Properties of the risk factors\<close>

lemma stability_nonneg: "0 \<le> m \<Longrightarrow> 0 \<le> min 1 (ln (1 + m / 5000) / ln (5::real))"
  by (simp add: zero_le_divide_iff)

text \<open>
  With a nonnegative income \<^verbatim>\<open>calculate_risk_tolerance\<close> raises nothing, whatever the learned
  scorer does, and reports the two factors rounded to two decimals.
\<close>

lemma risk_tolerance_factors:
  assumes "0 \<le> monthly_income"
  shows "\<exists>r. calculate_risk_tolerance ml_model current_asset monthly_income goal age = Inr r
    \<and> asset_coverage (factors r)
        = py_round (min 1 (asset_coverage_factor current_asset (calculate_target_amount goal))) 2
    \<and> time_pressure (factors r)
        = py_round (time_pressure_factor
            (of_int (calculate_target_amount goal) - current_asset) monthly_income) 2"
proof -
  have pos: "\<not> 1 + monthly_income / 5000 \<le> 0" using assms by simp
  have s: "\<not> min 1 (ln (1 + monthly_income / 5000) / ln (5::real)) < 0"
    using stability_nonneg [OF assms] by linarith
  show ?thesis
    unfolding calculate_risk_tolerance_def calculate_risk_score_traditional_def Let_def
      if_not_P [OF pos] if_not_P [OF s]
    by (simp split: option.splits split del: if_split)
qed

text \<open>
  C2, as stated: the goal text \<open>buy a house\<close> gives the target 1,000,000 and the asset
  coverage 0.05 at an asset of 50,000. The keywords of the code are Chinese; the English
  text contains none, so the code returns the generic 500,000 and the coverage is 0.1.
\<close>

theorem house_scenario_counterexample:
  "calculate_target_amount (ascii ''buy a house'') = 500000
   \<and> calculate_target_amount (ascii ''buy a house'') \<noteq> 1000000
   \<and> asset_coverage_factor 50000 (calculate_target_amount (ascii ''buy a house'')) = 1 / 10
   \<and> asset_coverage_factor 50000 (calculate_target_amount (ascii ''buy a house'')) \<noteq> 5 / 100
   \<and> map_sum id (asset_coverage \<circ> factors)
         (calculate_risk_tolerance None 50000 15000 (ascii ''buy a house'') 30) = Inr (1 / 10)"
proof -
  have c: "asset_coverage_factor 50000 (calculate_target_amount (ascii ''buy a house'')) = 1 / 10"
    by (simp add: target_english_house asset_coverage_factor_def)
  have "map_sum id (asset_coverage \<circ> factors)
         (calculate_risk_tolerance None 50000 15000 (ascii ''buy a house'') 30) = Inr (1 / 10)"
    using risk_tolerance_factors [of 15000 None 50000 "ascii ''buy a house''" 30] py_round_1_10
    by (auto simp: c)
  with c show ?thesis by (simp add: target_english_house)
qed

text \<open>
  C2, amended: for the goal text U+4E70 U+623F, the house keyword of the code,
  \<^verbatim>\<open>calculate_target_amount\<close> returns 1,000,000, and at an asset of 50,000 (income 15,000,
  age 30, any scorer) the asset coverage of \<^verbatim>\<open>calculate_risk_tolerance\<close> is 0.05, as computed
  and as reported. For the English text \<open>buy a house\<close> the amount is the generic 500,000 and
  the coverage 0.1.
\<close>

theorem house_scenario:
  "calculate_target_amount kw_buy_house = 1000000
   \<and> asset_coverage_factor 50000 (calculate_target_amount kw_buy_house) = 5 / 100
   \<and> map_sum id (asset_coverage \<circ> factors)
         (calculate_risk_tolerance ml_model 50000 15000 kw_buy_house 30) = Inr (5 / 100)
   \<and> calculate_target_amount (ascii ''buy a house'') = 500000
   \<and> asset_coverage_factor 50000 (calculate_target_amount (ascii ''buy a house'')) = 1 / 10
   \<and> map_sum id (asset_coverage \<circ> factors)
         (calculate_risk_tolerance ml_model 50000 15000 (ascii ''buy a house'') 30) = Inr (1 / 10)"
proof -
  have c1: "asset_coverage_factor 50000 (calculate_target_amount kw_buy_house) = 5 / 100"
    by (simp add: target_buy_house asset_coverage_factor_def)
  have c2: "asset_coverage_factor 50000 (calculate_target_amount (ascii ''buy a house'')) = 1 / 10"
    by (simp add: target_english_house asset_coverage_factor_def)
  have r1: "map_sum id (asset_coverage \<circ> factors)
         (calculate_risk_tolerance ml_model 50000 15000 kw_buy_house 30) = Inr (5 / 100)"
    using risk_tolerance_factors [of 15000 ml_model 50000 kw_buy_house 30] py_round_5_100
    by (auto simp: c1)
  have r2: "map_sum id (asset_coverage \<circ> factors)
         (calculate_risk_tolerance ml_model 50000 15000 (ascii ''buy a house'') 30) = Inr (1 / 10)"
    using risk_tolerance_factors [of 15000 ml_model 50000 "ascii ''buy a house''" 30] py_round_1_10
    by (auto simp: c2)
  show ?thesis using target_buy_house c1 r1 target_english_house c2 r2 by blast
qed




section \<open>Properties of the performance metrics\<close>

lemma risk_profiles_dom: "dom risk_profiles = {''low'', ''medium'', ''high''}"
  by (auto simp: risk_profiles_def split: if_splits)

text \<open>
  C4, as stated: CVaR is exactly 1.3 times VaR. For the medium tier at 95 percent VaR is
  6.16 and CVaR is 8.01, while 1.3 times 6.16 is 8.008: CVaR is rounded to two decimals.
\<close>

theorem cvar_exact_counterexample:
  "calculate_var ''medium'' (95 / 100) = Inr (616 / 100)
   \<and> calculate_cvar ''medium'' (95 / 100) = Inr (801 / 100)
   \<and> (801 / 100 :: real) \<noteq> 13 / 10 * (616 / 100)"
  by (simp add: calculate_cvar_def calculate_var_def risk_profiles_def Let_def py_round_def
      round_half_even_def)

text \<open>
  C4, amended: for every tier and every confidence level, CVaR is 1.3 times VaR rounded to
  two decimals, so it differs from 1.3 times VaR by at most 0.005.
\<close>

theorem cvar_rounded:
  assumes "tier \<in> {''low'', ''medium'', ''high''}"
  shows "\<exists>v c. calculate_var tier confidence_level = Inr v
    \<and> calculate_cvar tier confidence_level = Inr c
    \<and> c = py_round (13 / 10 * v) 2
    \<and> \<bar>c - 13 / 10 * v\<bar> \<le> 5 / 1000"
proof -
  from assms obtain p where p: "risk_profiles tier = Some p"
    using risk_profiles_dom by blast
  then obtain v where v: "calculate_var tier confidence_level = Inr v"
    by (simp add: calculate_var_def Let_def)
  have c: "calculate_cvar tier confidence_level = Inr (py_round (13 / 10 * v) 2)"
    by (simp add: calculate_cvar_def v)
  have "\<bar>py_round (13 / 10 * v) 2 - 13 / 10 * v\<bar> \<le> 5 / 1000"
    using py_round_error [of "13 / 10 * v" 2] by simp
  with v c show ?thesis by blast
qed

theorem cvar_rounded_witness:
  "''high'' \<in> {''low'', ''medium'', ''high''}
   \<and> (\<exists>v c. calculate_var ''high'' (99 / 100) = Inr v
        \<and> calculate_cvar ''high'' (99 / 100) = Inr c
        \<and> c = py_round (13 / 10 * v) 2 \<and> \<bar>c - 13 / 10 * v\<bar> \<le> 5 / 1000)"
  using cvar_rounded [of "''high''" "99 / 100"] by simp



section \<open>Properties of the asset allocation\<close>

text \<open>
  For a nonnegative horizon and asset the adjusted stock and bond weights of a tier are not
  negative, and the cash weight is the base weight 0.1.
\<close>

lemma adjusted_allocation_signs:
  assumes p: "risk_profiles tier = Some p"
    and h: "0 \<le> time_horizon" and a: "0 \<le> current_asset"
    and adj: "adjusted_allocation (asset_allocation p) current_asset target_amount time_horizon
               = (s, b, c)"
  shows "0 \<le> s \<and> 0 \<le> b \<and> c = 1 / 10"
proof -
  define tf where "tf = min 1 (real_of_int time_horizon / 120)"
  define ar where "ar = (if target_amount > 0 then min 1 (current_asset / target_amount) else 0)"
  have tf: "0 \<le> tf" "tf \<le> 1" using h by (simp_all add: tf_def)
  have ar: "0 \<le> ar" "ar \<le> 1" using a by (simp_all add: ar_def)
  have base: "0 \<le> stocks (asset_allocation p)" "0 \<le> bonds (asset_allocation p)"
    "cash (asset_allocation p) = 1 / 10"
    using p by (auto simp: risk_profiles_def split: if_splits)
  have s: "s = stocks (asset_allocation p) * (1 + tf * (2 / 10)) * (1 - ar * (3 / 10))"
    and b: "b = bonds (asset_allocation p) * (1 - tf * (1 / 10)) * (1 + ar * (3 / 10))"
    and c: "c = cash (asset_allocation p)"
    using adj by (simp_all add: adjusted_allocation_def Let_def tf_def ar_def)
  have "0 \<le> 1 + tf * (2 / 10)" "0 \<le> 1 - ar * (3 / 10)"
    "0 \<le> 1 - tf * (1 / 10)" "0 \<le> 1 + ar * (3 / 10)"
    using tf ar by simp_all
  then show ?thesis using base by (simp add: s b c)
qed

text \<open>
  C9: for every tier, nonnegative horizon and nonnegative asset, the divisor
  \<^verbatim>\<open>stocks_adj + bonds_adj + cash_adj\<close> of the normalisation is positive (the stock and bond
  addends are not negative and the cash addend is the positive base weight), so
  \<^verbatim>\<open>optimize_asset_allocation\<close> returns an allocation and never divides by zero.
\<close>

theorem allocation_total_positive:
  assumes "tier \<in> {''low'', ''medium'', ''high''}"
    and "0 \<le> time_horizon" and "0 \<le> current_asset"
  shows "\<exists>p s b c. risk_profiles tier = Some p
    \<and> adjusted_allocation (asset_allocation p) current_asset target_amount time_horizon = (s, b, c)
    \<and> 0 \<le> s \<and> 0 \<le> b \<and> 0 < c \<and> 0 < s + b + c
    \<and> optimize_asset_allocation tier current_asset target_amount time_horizon
        \<noteq> Inl ZeroDivisionError
    \<and> (\<exists>r. optimize_asset_allocation tier current_asset target_amount time_horizon = Inr r)"
proof -
  from assms(1) obtain p where p: "risk_profiles tier = Some p"
    by (auto simp: risk_profiles_def)
  obtain s b c where adj:
    "adjusted_allocation (asset_allocation p) current_asset target_amount time_horizon = (s, b, c)"
    by (metis prod_cases3)
  from adjusted_allocation_signs [OF p assms(2,3) adj]
  have signs: "0 \<le> s" "0 \<le> b" "0 < c" by simp_all
  then have total: "0 < s + b + c" by simp
  then have r: "optimize_asset_allocation tier current_asset target_amount time_horizon
      = Inr \<lparr>stocks = py_round (s / (s + b + c)) 3, bonds = py_round (b / (s + b + c)) 3,
             cash = py_round (c / (s + b + c)) 3\<rparr>"
    by (simp add: optimize_asset_allocation_def p adj Let_def)
  then have "optimize_asset_allocation tier current_asset target_amount time_horizon
      \<noteq> Inl ZeroDivisionError" by simp
  with p adj signs total r show ?thesis by blast
qed

theorem allocation_total_positive_witness:
  "''medium'' \<in> {''low'', ''medium'', ''high''} \<and> (0::int) \<le> 147 \<and> (0::real) \<le> 50000
   \<and> (\<exists>r. optimize_asset_allocation ''medium'' 50000 1000000 147 = Inr r)
   \<and> optimize_asset_allocation ''medium'' 50000 1000000 147 \<noteq> Inl ZeroDivisionError"
proof -
  have h: "''medium'' \<in> {''low'', ''medium'', ''high''}" "(0::int) \<le> 147" "(0::real) \<le> 50000"
    by simp_all
  from allocation_total_positive [OF h, of 1000000] h show ?thesis by blast
qed

text \<open>Three shares of a whole, each rounded to three decimals, add up to 0.999, 1 or 1.001.\<close>

lemma rounded_shares:
  assumes "q1 + q2 + q3 = 1"
  shows "\<bar>py_round q1 3 + py_round q2 3 + py_round q3 3 - 1\<bar> \<le> 1 / 1000"
proof -
  define k1 where "k1 = round_half_even (q1 * 1000)"
  define k2 where "k2 = round_half_even (q2 * 1000)"
  define k3 where "k3 = round_half_even (q3 * 1000)"
  have e: "\<bar>of_int k1 - q1 * 1000\<bar> \<le> 1 / 2" "\<bar>of_int k2 - q2 * 1000\<bar> \<le> 1 / 2"
    "\<bar>of_int k3 - q3 * 1000\<bar> \<le> 1 / 2"
    unfolding k1_def k2_def k3_def by (rule round_half_even_error)+
  have "q1 * 1000 + q2 * 1000 + q3 * 1000 = 1000"
    using assms by linarith
  with e have "\<bar>real_of_int k1 + real_of_int k2 + real_of_int k3 - 1000\<bar> \<le> 3 / 2"
    by linarith
  then have "\<bar>real_of_int (k1 + k2 + k3 - 1000)\<bar> < 2" by simp
  then have "\<bar>k1 + k2 + k3 - 1000\<bar> < 2" by linarith
  then have "\<bar>k1 + k2 + k3 - 1000\<bar> \<le> 1" by simp
  then have "\<bar>real_of_int (k1 + k2 + k3 - 1000)\<bar> \<le> 1" by linarith
  then have bound:
    "\<bar>(real_of_int k1 + real_of_int k2 + real_of_int k3 - 1000) / 1000\<bar> \<le> 1 / 1000"
    by simp
  have eq: "py_round q1 3 + py_round q2 3 + py_round q3 3 - 1
      = (real_of_int k1 + real_of_int k2 + real_of_int k3 - 1000) / 1000"
    by (simp add: py_round_def k1_def k2_def k3_def add_divide_distrib diff_divide_distrib)
  show ?thesis unfolding eq by (rule bound)
qed

text \<open>
  C1, as stated: the returned weights add up to 1 within \<open>10\<^sup>-\<^sup>6\<close>. For the high tier, no asset
  and a horizon of 120 months the adjusted weights are 0.72, 0.27 and 0.1; their shares of
  1.09 round to 0.661, 0.248 and 0.092, which add up to 1.001.
\<close>

theorem allocation_sum_counterexample:
  "optimize_asset_allocation ''high'' 0 1000000 120
     = Inr \<lparr>stocks = 661 / 1000, bonds = 248 / 1000, cash = 92 / 1000\<rparr>
   \<and> \<not> \<bar>(661 / 1000 + 248 / 1000 + 92 / 1000 :: real) - 1\<bar> \<le> 1 / 1000000"
  by (simp add: optimize_asset_allocation_def risk_profiles_def adjusted_allocation_def Let_def
      py_round_def round_half_even_def)

text \<open>
  C1, amended: for every tier, every nonnegative horizon (so every horizon from 0 to 600),
  every nonnegative asset and every target amount, \<^verbatim>\<open>optimize_asset_allocation\<close> returns
  weights rounded to three decimals whose sum is 1 within a tolerance of 0.0015; added
  exactly, the three weights differ from 1 by at most 0.001.
\<close>

theorem allocation_sum:
  assumes "tier \<in> {''low'', ''medium'', ''high''}"
    and "0 \<le> time_horizon" and "0 \<le> current_asset"
  shows "\<exists>r. optimize_asset_allocation tier current_asset target_amount time_horizon = Inr r
    \<and> \<bar>stocks r + bonds r + cash r - 1\<bar> \<le> 1 / 1000
    \<and> \<bar>stocks r + bonds r + cash r - 1\<bar> \<le> 15 / 10000"
proof -
  from assms(1) obtain p where p: "risk_profiles tier = Some p"
    by (auto simp: risk_profiles_def)
  obtain s b c where adj:
    "adjusted_allocation (asset_allocation p) current_asset target_amount time_horizon = (s, b, c)"
    by (metis prod_cases3)
  from adjusted_allocation_signs [OF p assms(2,3) adj]
  have total: "0 < s + b + c" by simp
  then have r: "optimize_asset_allocation tier current_asset target_amount time_horizon
      = Inr \<lparr>stocks = py_round (s / (s + b + c)) 3, bonds = py_round (b / (s + b + c)) 3,
             cash = py_round (c / (s + b + c)) 3\<rparr>"
    by (simp add: optimize_asset_allocation_def p adj Let_def)
  have "s / (s + b + c) + b / (s + b + c) + c / (s + b + c) = 1"
    using total by (simp flip: add_divide_distrib)
  from rounded_shares [OF this]
  have "\<bar>py_round (s / (s + b + c)) 3 + py_round (b / (s + b + c)) 3
          + py_round (c / (s + b + c)) 3 - 1\<bar> \<le> 1 / 1000" .
  with r show ?thesis by simp
qed

theorem allocation_sum_witness:
  "''high'' \<in> {''low'', ''medium'', ''high''} \<and> (0::int) \<le> 120 \<and> (0::real) \<le> 0
   \<and> (\<exists>r. optimize_asset_allocation ''high'' 0 1000000 120 = Inr r
         \<and> \<bar>stocks r + bonds r + cash r - 1\<bar> \<le> 1 / 1000
         \<and> \<bar>stocks r + bonds r + cash r - 1\<bar> \<le> 15 / 10000)"
  using allocation_sum [of "''high''" 120 0 1000000] by simp

section \<open>Properties of the Monte Carlo projection\<close>






section \<open>Properties of the savings plan\<close>

text \<open>The search counts upwards and never beyond 600.\<close>

lemma months_search_bounds:
  "months \<le> 600 \<Longrightarrow>
   months \<le> snd (months_search target_amount monthly_return save accumulated months)
   \<and> snd (months_search target_amount monthly_return save accumulated months) \<le> 600"
proof (induction target_amount monthly_return save accumulated months rule: months_search.induct)
  case (1 target_amount monthly_return save accumulated months)
  show ?case
  proof (cases "accumulated < target_amount \<and> months < 600")
    case True
    with 1 show ?thesis
      by (subst (1 2) months_search.simps) auto
  next
    case False
    with 1 show ?thesis
      by (subst (1 2) months_search.simps) auto
  qed
qed

text \<open>Below the target the search makes at least one step.\<close>

lemma months_search_step:
  assumes "accumulated < target_amount"
  shows "1 \<le> snd (months_search target_amount monthly_return save accumulated 0)"
proof -
  have "months_search target_amount monthly_return save accumulated 0
      = months_search target_amount monthly_return save
          (accumulated * (1 + monthly_return) + save) 1"
    using assms by (subst months_search.simps) simp
  then show ?thesis
    using months_search_bounds [of 1 target_amount monthly_return save
        "accumulated * (1 + monthly_return) + save"]
    by simp
qed

text \<open>Without asset and without saving the search runs to the cap.\<close>

lemma months_search_stuck:
  "0 < target_amount \<Longrightarrow> months \<le> 600 \<Longrightarrow>
   accumulated = 0 \<Longrightarrow> save = 0 \<Longrightarrow>
   months_search target_amount monthly_return save accumulated months = (0, 600)"
proof (induction target_amount monthly_return save accumulated months rule: months_search.induct)
  case (1 target_amount monthly_return save accumulated months)
  show ?case
  proof (cases "months < 600")
    case True
    with 1 show ?thesis
      by (subst months_search.simps) auto
  next
    case False
    with 1 show ?thesis
      by (subst months_search.simps) auto
  qed
qed

text \<open>The horizon and the rate of the returned plan, from the first half of the function.\<close>

lemma plan_fields:
  assumes "risk_profiles tier = Some p"
    and "plan_horizon current_asset monthly_income target_amount (expected_return p / 12) horizon
         = (n, save)"
  shows "\<exists>plan. calculate_optimal_savings_rate current_asset monthly_income target_amount tier
             horizon = Inr plan
    \<and> target_months plan = n
    \<and> savings_rate plan
       = py_round (if n = 0 \<or> monthly_income = 0 then 0
                   else min (6 / 10) (max (2 / 10) (save / monthly_income))) 2"
  unfolding calculate_optimal_savings_rate_def Let_def
  by (simp add: assms split del: if_split) (simp split: if_splits)

lemma plan_horizon_search:
  assumes "0 < target_amount - current_asset"
  shows "plan_horizon current_asset monthly_income target_amount monthly_return None
     = (snd (months_search target_amount monthly_return (monthly_income * (3 / 10))
              current_asset 0),
        monthly_income * (3 / 10))"
  using assms
    months_search_bounds [of 0 target_amount monthly_return "monthly_income * (3 / 10)" current_asset]
  by (auto simp: plan_horizon_def Let_def)

text \<open>
  When the asset already covers the target, the plan without a given horizon has the
  horizon 0, which is the number of months the recommendation passes to the simulation.
\<close>

lemma goal_met_horizon:
  assumes "tier \<in> {''low'', ''medium'', ''high''}"
    and "target_amount - current_asset \<le> 0"
  shows "\<exists>plan. calculate_optimal_savings_rate current_asset monthly_income target_amount tier
             None = Inr plan
    \<and> target_months plan = 0 \<and> savings_rate plan = 0"
proof -
  from assms(1) obtain p where p: "risk_profiles tier = Some p"
    by (auto simp: risk_profiles_def)
  have "plan_horizon current_asset monthly_income target_amount (expected_return p / 12) None
      = (0, 0)"
    using assms(2) by (simp add: plan_horizon_def)
  from plan_fields [OF p this] show ?thesis by simp
qed

text \<open>
  C8: called without a horizon and with a positive gap, \<^verbatim>\<open>calculate_optimal_savings_rate\<close>
  returns a plan, and its horizon is the number of steps of the compounding search, which
  lies between 0 and 600 (the search is a total function: each step brings the counter
  nearer to 600).
\<close>

theorem search_horizon_bounded:
  assumes "tier \<in> {''low'', ''medium'', ''high''}"
    and "0 < target_amount - current_asset"
  shows "\<exists>plan p. risk_profiles tier = Some p
    \<and> calculate_optimal_savings_rate current_asset monthly_income target_amount tier None
        = Inr plan
    \<and> target_months plan
        = snd (months_search target_amount (expected_return p / 12) (monthly_income * (3 / 10))
                 current_asset 0)
    \<and> 0 \<le> target_months plan \<and> target_months plan \<le> 600"
proof -
  from assms(1) obtain p where p: "risk_profiles tier = Some p"
    by (auto simp: risk_profiles_def)
  let ?m = "snd (months_search target_amount (expected_return p / 12)
                   (monthly_income * (3 / 10)) current_asset 0)"
  from plan_fields [OF p plan_horizon_search [OF assms(2)]]
  obtain plan where plan:
    "calculate_optimal_savings_rate current_asset monthly_income target_amount tier None = Inr plan"
    "target_months plan = ?m"
    by blast
  have "0 \<le> ?m \<and> ?m \<le> 600"
    using months_search_bounds [of 0 target_amount "expected_return p / 12"
        "monthly_income * (3 / 10)" current_asset]
    by simp
  with p plan show ?thesis by auto
qed

theorem search_horizon_bounded_witness:
  "''low'' \<in> {''low'', ''medium'', ''high''} \<and> (0::real) < 1000 - 0
   \<and> (\<exists>plan. calculate_optimal_savings_rate 0 0 1000 ''low'' None = Inr plan
         \<and> 0 \<le> target_months plan \<and> target_months plan \<le> 600)"
proof -
  have h: "''low'' \<in> {''low'', ''medium'', ''high''}" "(0::real) < 1000 - 0" by simp_all
  from search_horizon_bounded [OF h, of 0] h show ?thesis by blast
qed

text \<open>
  C5, as stated: the savings rate is 0 only if the returned horizon is 0. Without asset and
  without income the search for a target of 1000 runs to the cap, and the plan has the
  horizon 600 and the rate 0: the rate is also 0 when the income is 0.
\<close>

theorem zero_rate_counterexample:
  "map_sum id savings_rate (calculate_optimal_savings_rate 0 0 1000 ''low'' None) = Inr 0
   \<and> map_sum id target_months (calculate_optimal_savings_rate 0 0 1000 ''low'' None) = Inr 600"
proof -
  have p: "risk_profiles ''low''
      = Some \<lparr>expected_return = 5 / 100, volatility = 3 / 100, max_drawdown = 5 / 100,
         asset_allocation = \<lparr>stocks = 20 / 100, bonds = 70 / 100, cash = 10 / 100\<rparr>\<rparr>"
    by (simp add: risk_profiles_def)
  have "plan_horizon 0 0 1000 (5 / 100 / 12) None = (600, 0)"
    using plan_horizon_search [of 1000 0 0 "5 / 100 / 12"]
      months_search_stuck [of 1000 0 0 0 "5 / 100 / 12"]
    by simp
  with plan_fields [OF p, of 0 0 1000 None 600 0] show ?thesis by auto
qed

text \<open>
  C5, amended: for every tier, nonnegative asset and income, target amount and optional
  horizon, the returned savings rate lies between 0 and 0.6, and it is 0 only if the
  returned horizon is 0 or the income is 0; otherwise it is at least 0.2.
\<close>

theorem savings_rate_range:
  assumes "tier \<in> {''low'', ''medium'', ''high''}"
    and "0 \<le> current_asset" and "0 \<le> monthly_income"
  shows "\<exists>plan. calculate_optimal_savings_rate current_asset monthly_income target_amount tier
             horizon = Inr plan
    \<and> 0 \<le> savings_rate plan \<and> savings_rate plan \<le> 6 / 10
    \<and> (savings_rate plan = 0 \<longrightarrow> target_months plan = 0 \<or> monthly_income = 0)
    \<and> (savings_rate plan \<noteq> 0 \<longrightarrow> 2 / 10 \<le> savings_rate plan)"
proof -
  from assms(1) obtain p where p: "risk_profiles tier = Some p"
    by (auto simp: risk_profiles_def)
  obtain n save where h:
    "plan_horizon current_asset monthly_income target_amount (expected_return p / 12) horizon
       = (n, save)"
    by (cases "plan_horizon current_asset monthly_income target_amount (expected_return p / 12)
                 horizon")
  define rate where "rate = min (6 / 10) (max (2 / 10) (save / monthly_income))"
  from plan_fields [OF p h] obtain plan where plan:
    "calculate_optimal_savings_rate current_asset monthly_income target_amount tier horizon
       = Inr plan"
    "target_months plan = n"
    "savings_rate plan = py_round (if n = 0 \<or> monthly_income = 0 then 0 else rate) 2"
    unfolding rate_def by blast
  show ?thesis
  proof (cases "n = 0 \<or> monthly_income = 0")
    case True
    with plan show ?thesis by auto
  next
    case False
    have "2 / 10 \<le> rate" "rate \<le> 6 / 10" by (auto simp: rate_def min_def max_def)
    then have "2 / 10 \<le> py_round rate 2" "py_round rate 2 \<le> 6 / 10"
      using py_round_ge [of "2 / 10" 2 20 rate] py_round_le [of "6 / 10" 2 60 rate]
      by simp_all
    with False plan show ?thesis by auto
  qed
qed

theorem savings_rate_range_witness:
  "''low'' \<in> {''low'', ''medium'', ''high''} \<and> (0::real) \<le> 50000 \<and> (0::real) \<le> 15000
   \<and> (\<exists>plan. calculate_optimal_savings_rate 50000 15000 1000000 ''low'' None = Inr plan
         \<and> 0 \<le> savings_rate plan \<and> savings_rate plan \<le> 6 / 10
         \<and> (savings_rate plan = 0 \<longrightarrow> target_months plan = 0 \<or> (15000::real) = 0))"
proof -
  have h: "''low'' \<in> {''low'', ''medium'', ''high''}" "(0::real) \<le> 50000" "(0::real) \<le> 15000"
    by simp_all
  from savings_rate_range [OF h, of 1000000 None] h show ?thesis by blast
qed

end
